theory Spec2Isabelle
  imports Main
begin

section \<open>Values shared by server and client\<close>

text \<open>
  Python dictionaries and JSON documents (tool schemas, tool arguments, the OpenAI tool
  format) are values of one datatype. A dictionary is an association list in the order
  the source writes its keys.
\<close>

datatype json =
    JNull
  | JBool bool
  | JInt int
  | JStr string
  | JList "json list"
  | JDict "(string \<times> json) list"

text \<open>
  Exceptions are values. \<open>ValueError\<close>, \<open>IndexError\<close> and \<open>AttributeError\<close> are raised
  by the client code itself (an explicit \<^verbatim>\<open>raise\<close>, \<^verbatim>\<open>xs[0]\<close> on an empty list, an
  attribute read on \<^verbatim>\<open>None\<close> or on an object without that attribute);
  \<open>JSONDecodeError\<close> comes from \<^verbatim>\<open>json.loads\<close>; the other four are the failures of the
  external collaborators (MCP session, LLM provider).
\<close>

datatype error =
    ValueError
  | IndexError
  | AttributeError
  | JSONDecodeError
  | UnknownTool
  | InvalidArguments
  | TransportError
  | ProviderError

text \<open>The MCP tool descriptor: \<^verbatim>\<open>tool.name\<close>, \<^verbatim>\<open>tool.description\<close>, \<^verbatim>\<open>tool.inputSchema\<close>.\<close>

record tool =
  name :: string
  description :: "string option"
  inputSchema :: json

section \<open>server.py\<close>

text \<open>
  \<^verbatim>\<open>
  @mcp.tool()
  def add(a: int, b: int) -> int:
      """Add two numbers together"""
      return a + b
  \<close>
  Python integers are unbounded, so the handler is addition on \<open>int\<close>.
\<close>

definition add :: "int \<Rightarrow> int \<Rightarrow> int" where
  "add a b = a + b"

text \<open>
  What a decorator sees of a \<^verbatim>\<open>def\<close>: the function's name, its annotated parameters in
  order, its return annotation and its docstring.
\<close>

datatype annotation = Ann_int | Ann_str | Ann_bool | Ann_float

record py_def =
  def_name :: string
  def_params :: "(string \<times> annotation) list"
  def_returns :: annotation
  def_doc :: "string option"

definition add_def :: py_def where
  "add_def = \<lparr>def_name = ''add'',
              def_params = [(''a'', Ann_int), (''b'', Ann_int)],
              def_returns = Ann_int,
              def_doc = Some ''Add two numbers together''\<rparr>"

text \<open>
  \<^verbatim>\<open>mcp = FastMCP(name="Calculator", host="0.0.0.0", port=8050)\<close>: the server object
  with its tool registry, empty at construction. A registry entry is a tool descriptor
  together with the declared output type.
\<close>

record registered_tool =
  descriptor :: tool
  output_type :: string

record fastmcp =
  server_name :: string
  host :: string
  port :: nat
  registry :: "registered_tool list"

definition FastMCP :: "string \<Rightarrow> string \<Rightarrow> nat \<Rightarrow> fastmcp" where
  "FastMCP n h p = \<lparr>server_name = n, host = h, port = p, registry = []\<rparr>"

fun schema_type :: "annotation \<Rightarrow> string" where
  "schema_type Ann_int = ''integer''"
| "schema_type Ann_str = ''string''"
| "schema_type Ann_bool = ''boolean''"
| "schema_type Ann_float = ''number''"

text \<open>
  Modelled from the spec: the \<^verbatim>\<open>@mcp.tool()\<close> decorator belongs to the FastMCP SDK, whose
  code is not part of the repository. Following the registry contract
  \<^verbatim>\<open>register(name, description, schema, handler)\<close> and the exposed tool schema
  \<^verbatim>\<open>{name, description, input_schema: {a: integer, b: integer}, output: integer}\<close>,
  it appends one entry: the name is the function's name, the description its docstring,
  the input schema maps each parameter to its declared type, the output is the declared
  return type.
\<close>

definition tool_decorator :: "py_def \<Rightarrow> fastmcp \<Rightarrow> fastmcp" where
  "tool_decorator d m =
     m\<lparr>registry := registry m @
        [\<lparr>descriptor =
            \<lparr>name = def_name d,
             description = def_doc d,
             inputSchema = JDict (map (\<lambda>(p, t). (p, JStr (schema_type t))) (def_params d))\<rparr>,
          output_type = schema_type (def_returns d)\<rparr>]\<rparr>"

text \<open>The module body of \<^verbatim>\<open>server.py\<close>: construct the server, then decorate \<^verbatim>\<open>add\<close>.\<close>

definition mcp :: fastmcp where
  "mcp = tool_decorator add_def (FastMCP ''Calculator'' ''0.0.0.0'' 8050)"

section \<open>The external collaborators of the clients\<close>

text \<open>
  The objects the OpenAI SDK returns: \<^verbatim>\<open>response.choices[0].message\<close> with its
  \<^verbatim>\<open>content\<close> and \<^verbatim>\<open>tool_calls\<close> (either may be \<^verbatim>\<open>None\<close>), and each tool call with
  \<^verbatim>\<open>id\<close>, \<^verbatim>\<open>function.name\<close> and \<^verbatim>\<open>function.arguments\<close> (a JSON text).
\<close>

record function_call =
  fn_name :: string
  fn_arguments :: string

record tool_call =
  tc_id :: string
  tc_function :: function_call

record assistant_message =
  content :: "string option"
  tool_calls :: "tool_call list option"

record choice =
  message :: assistant_message

record chat_completion =
  choices :: "choice list"

text \<open>
  An element of the \<^verbatim>\<open>messages\<close> list is either a dictionary built by the client
  (\<^verbatim>\<open>{"role": ..., "content": ...}\<close>) or the assistant message object of the first response.
\<close>

datatype message =
    Dict "(string \<times> string) list"
  | Assistant assistant_message

text \<open>The keyword arguments of \<^verbatim>\<open>chat.completions.create\<close>.\<close>

record create_args =
  kw_model :: string
  kw_messages :: "message list"
  kw_tools :: "json list option"
  kw_tool_choice :: string

text \<open>
  The objects the MCP SDK returns. A content item of a tool result is a text item, with
  a \<^verbatim>\<open>text\<close> attribute, or an image or embedded resource, without one. The client code
  reads \<^verbatim>\<open>content\<close> only; it never reads \<^verbatim>\<open>isError\<close>.
\<close>

datatype content_item =
    TextContent string
  | ImageContent
  | EmbeddedResource

record call_tool_result =
  result_content :: "content_item list"
  isError :: bool

record list_tools_result =
  tools :: "tool list"

text \<open>
  Every call that leaves the process is recorded, in order, in a trace. The answer of a
  collaborator may depend on everything that happened before, so each operation of a
  collaborator is a function of the trace so far and of its arguments; it returns a
  value or raises.
\<close>

datatype event =
    Enter_sse_client string
  | Exit_sse_client
  | Enter_ClientSession
  | Exit_ClientSession
  | Initialize
  | List_tools
  | Call_tool string json
  | Create create_args

type_synonym trace = "event list"

type_synonym 'a io = "trace \<Rightarrow> (error + 'a) \<times> trace"

record client_session =
  initialize :: "trace \<Rightarrow> error + unit"
  list_tools :: "trace \<Rightarrow> error + list_tools_result"
  call_tool :: "trace \<Rightarrow> string \<Rightarrow> json \<Rightarrow> error + call_tool_result"

record openai =
  create :: "trace \<Rightarrow> create_args \<Rightarrow> error + chat_completion"

text \<open>
  An asynchronous context manager: \<^verbatim>\<open>__aenter__\<close> returns the managed value or raises;
  \<^verbatim>\<open>__aexit__\<close> receives the exception that left the body, if any, and returns whether
  to swallow it, or raises itself.
\<close>

record 'a context_manager =
  aenter :: "trace \<Rightarrow> error + 'a"
  aexit :: "trace \<Rightarrow> error option \<Rightarrow> error + bool"

datatype sse_stream = Sse_stream nat

text \<open>
  What the modules import: \<^verbatim>\<open>json.loads\<close>, the constructor \<^verbatim>\<open>AsyncOpenAI()\<close> (which may
  raise), \<^verbatim>\<open>sse_client(url)\<close> and \<^verbatim>\<open>ClientSession(read_stream, write_stream)\<close>.
\<close>

record env =
  json_loads :: "string \<Rightarrow> error + json"
  AsyncOpenAI :: "error + openai"
  sse_client :: "string \<Rightarrow> (sse_stream \<times> sse_stream) context_manager"
  ClientSession :: "sse_stream \<Rightarrow> sse_stream \<Rightarrow> client_session context_manager"

section \<open>client.py\<close>

text \<open>
  The fields of \<^verbatim>\<open>MCPOpenAIClient\<close> that the methods read. Output to the terminal
  (\<^verbatim>\<open>print\<close>) is not modelled. The methods \<^verbatim>\<open>_send_to_openai\<close> and
  \<^verbatim>\<open>_handle_tool_calls\<close> appear without their leading underscore, and \<^verbatim>\<open>json.loads\<close>
  is a parameter of the functions that call it.
\<close>

record client =
  session :: "client_session option"
  openai_client :: openai
  model :: string

text \<open>\<^verbatim>\<open>MCPOpenAIClient(model="gpt-4o")\<close>: the session starts as \<^verbatim>\<open>None\<close>.\<close>

definition MCPOpenAIClient :: "env \<Rightarrow> string \<Rightarrow> error + client" where
  "MCPOpenAIClient E m =
     (case AsyncOpenAI E of
        Inl e \<Rightarrow> Inl e
      | Inr oc \<Rightarrow> Inr \<lparr>session = None, openai_client = oc, model = m\<rparr>)"

text \<open>
  \<^verbatim>\<open>
  async def connect_to_server(self, session):
      await session.initialize()
      self.session = session
      tools_result = await self.session.list_tools()
      ... print ...
  \<close>
  The result carries the client as the method leaves it, also when it raises.
\<close>

definition connect_to_server ::
  "client \<Rightarrow> client_session \<Rightarrow> trace \<Rightarrow> (error + unit) \<times> client \<times> trace" where
  "connect_to_server self s tr =
     (case initialize s tr of
        Inl e \<Rightarrow> (Inl e, self, tr @ [Initialize])
      | Inr _ \<Rightarrow>
          (let self' = self\<lparr>session := Some s\<rparr>; tr1 = tr @ [Initialize] in
           case list_tools s tr1 of
             Inl e \<Rightarrow> (Inl e, self', tr1 @ [List_tools])
           | Inr _ \<Rightarrow> (Inr (), self', tr1 @ [List_tools])))"

text \<open>A Python string, or \<^verbatim>\<open>None\<close>, as a dictionary value.\<close>

fun py_str :: "string option \<Rightarrow> json" where
  "py_str None = JNull"
| "py_str (Some s) = JStr s"

text \<open>
  \<^verbatim>\<open>
  async def get_mcp_tools(self):
      tools_result = await self.session.list_tools()
      return [{"type": "function",
               "function": {"name": tool.name, "description": tool.description,
                            "parameters": tool.inputSchema}}
              for tool in tools_result.tools]
  \<close>
  With no session, \<^verbatim>\<open>self.session.list_tools\<close> is an attribute read on \<^verbatim>\<open>None\<close>.
\<close>

definition get_mcp_tools :: "client \<Rightarrow> json list io" where
  "get_mcp_tools self tr =
     (case session self of
        None \<Rightarrow> (Inl AttributeError, tr)
      | Some s \<Rightarrow>
          (case list_tools s tr of
             Inl e \<Rightarrow> (Inl e, tr @ [List_tools])
           | Inr tools_result \<Rightarrow>
               (Inr (map (\<lambda>tool.
                       JDict [(''type'', JStr ''function''),
                              (''function'',
                               JDict [(''name'', JStr (name tool)),
                                      (''description'', py_str (description tool)),
                                      (''parameters'', inputSchema tool)])])
                     (tools tools_result)),
                tr @ [List_tools])))"

text \<open>Python truth of an optional string and of an optional list.\<close>

fun truthy_str :: "string option \<Rightarrow> bool" where
  "truthy_str None = False"
| "truthy_str (Some s) = (s \<noteq> [])"

fun truthy_list :: "'a list option \<Rightarrow> bool" where
  "truthy_list None = False"
| "truthy_list (Some xs) = (xs \<noteq> [])"

text \<open>
  \<^verbatim>\<open>
  async def _send_to_openai(self, query=None, messages=None, tools=None,
                            allow_tool_calls=True):
      if not messages and not query:
          raise ValueError("Either 'query' or 'messages' must be provided.")
      if not messages:
          messages = [{"role": "user", "content": query}]
      return await self.openai_client.chat.completions.create(
          model=self.model, messages=messages, tools=tools,
          tool_choice="auto" if allow_tool_calls else "none")
  \<close>
  Where \<open>messages\<close> is replaced, \<open>query\<close> is a non-empty string; where it is kept, it
  is a non-empty list. The \<open>None\<close> cases of the two inner \<open>case\<close>s are unreachable.
\<close>

definition send_to_openai ::
  "client \<Rightarrow> string option \<Rightarrow> message list option \<Rightarrow> json list option \<Rightarrow> bool
     \<Rightarrow> chat_completion io" where
  "send_to_openai self query messages tools_arg allow_tool_calls tr =
     (if \<not> truthy_list messages \<and> \<not> truthy_str query then (Inl ValueError, tr)
      else
        (let messages' =
               (if \<not> truthy_list messages
                then [Dict [(''role'', ''user''),
                            (''content'', case query of Some q \<Rightarrow> q | None \<Rightarrow> [])]]
                else (case messages of Some ms \<Rightarrow> ms | None \<Rightarrow> []));
             args = \<lparr>kw_model = model self,
                     kw_messages = messages',
                     kw_tools = tools_arg,
                     kw_tool_choice = (if allow_tool_calls then ''auto'' else ''none'')\<rparr>
         in (create (openai_client self) tr args, tr @ [Create args])))"

text \<open>
  \<^verbatim>\<open>
  async def _handle_tool_calls(self, tool_calls, messages):
      for tool_call in tool_calls:
          result = await self.session.call_tool(
              tool_call.function.name,
              arguments=json.loads(tool_call.function.arguments))
          messages.append({"role": "tool", "tool_call_id": tool_call.id,
                           "content": result.content[0].text})
  \<close>
  The loop mutates the caller's list, so the list is part of the state that is returned,
  also when an iteration raises. \<^verbatim>\<open>result.content[0]\<close> raises on an empty list, and
  \<^verbatim>\<open>.text\<close> raises on an item that has no such attribute.
\<close>

fun handle_tool_calls ::
  "(string \<Rightarrow> error + json) \<Rightarrow> client \<Rightarrow> tool_call list \<Rightarrow> message list \<Rightarrow> trace
     \<Rightarrow> (error + unit) \<times> message list \<times> trace" where
  "handle_tool_calls loads self [] messages tr = (Inr (), messages, tr)"
| "handle_tool_calls loads self (tool_call # rest) messages tr =
     (case session self of
        None \<Rightarrow> (Inl AttributeError, messages, tr)
      | Some s \<Rightarrow>
          (case loads (fn_arguments (tc_function tool_call)) of
             Inl e \<Rightarrow> (Inl e, messages, tr)
           | Inr arguments \<Rightarrow>
               (let tr1 = tr @ [Call_tool (fn_name (tc_function tool_call)) arguments] in
                case call_tool s tr (fn_name (tc_function tool_call)) arguments of
                  Inl e \<Rightarrow> (Inl e, messages, tr1)
                | Inr result \<Rightarrow>
                    (case result_content result of
                       [] \<Rightarrow> (Inl IndexError, messages, tr1)
                     | TextContent t # _ \<Rightarrow>
                         handle_tool_calls loads self rest
                           (messages @ [Dict [(''role'', ''tool''),
                                              (''tool_call_id'', tc_id tool_call),
                                              (''content'', t)]])
                           tr1
                     | _ # _ \<Rightarrow> (Inl AttributeError, messages, tr1)))))"

text \<open>
  \<^verbatim>\<open>
  async def process_query(self, query):
      tools = await self.get_mcp_tools()
      response = await self._send_to_openai(query, [], tools, True)
      assistant_message = response.choices[0].message
      messages = [{"role": "user", "content": query}, assistant_message]
      if not assistant_message.tool_calls:
          return assistant_message.content
      await self._handle_tool_calls(assistant_message.tool_calls, messages)
      final_response = await self._send_to_openai("", messages=messages, tools=tools,
                                                  allow_tool_calls=False)
      return final_response.choices[0].message.content
  \<close>
\<close>

definition process_query ::
  "(string \<Rightarrow> error + json) \<Rightarrow> client \<Rightarrow> string \<Rightarrow> string option io" where
  "process_query loads self query tr =
     (case get_mcp_tools self tr of
        (Inl e, tr1) \<Rightarrow> (Inl e, tr1)
      | (Inr tools_list, tr1) \<Rightarrow>
          (case send_to_openai self (Some query) (Some []) (Some tools_list) True tr1 of
             (Inl e, tr2) \<Rightarrow> (Inl e, tr2)
           | (Inr response, tr2) \<Rightarrow>
               (case choices response of
                  [] \<Rightarrow> (Inl IndexError, tr2)
                | ch # _ \<Rightarrow>
                    (let assistant_msg = message ch;
                         messages = [Dict [(''role'', ''user''), (''content'', query)],
                                     Assistant assistant_msg]
                     in if \<not> truthy_list (tool_calls assistant_msg)
                        then (Inr (content assistant_msg), tr2)
                        else
                          (case handle_tool_calls loads self
                                  (case tool_calls assistant_msg of Some tcs \<Rightarrow> tcs | None \<Rightarrow> [])
                                  messages tr2 of
                             (Inl e, _, tr3) \<Rightarrow> (Inl e, tr3)
                           | (Inr _, messages', tr3) \<Rightarrow>
                               (case send_to_openai self (Some '''') (Some messages')
                                       (Some tools_list) False tr3 of
                                  (Inl e, tr4) \<Rightarrow> (Inl e, tr4)
                                | (Inr final_response, tr4) \<Rightarrow>
                                    (case choices final_response of
                                       [] \<Rightarrow> (Inl IndexError, tr4)
                                     | ch2 # _ \<Rightarrow>
                                         (Inr (content (message ch2)), tr4))))))))"

text \<open>
  \<^verbatim>\<open>async with cm as x: body\<close>. Once \<^verbatim>\<open>__aenter__\<close> has returned, \<^verbatim>\<open>__aexit__\<close> runs
  when the body is left, normally or by an exception; an exception of the body is
  re-raised unless \<^verbatim>\<open>__aexit__\<close> returns a true value. The two events mark the calls
  of \<^verbatim>\<open>__aenter__\<close> and \<^verbatim>\<open>__aexit__\<close>.
\<close>

definition async_with ::
  "'a context_manager \<Rightarrow> event \<Rightarrow> event \<Rightarrow> ('a \<Rightarrow> unit io) \<Rightarrow> unit io" where
  "async_with cm ev_enter ev_exit body tr =
     (case aenter cm tr of
        Inl e \<Rightarrow> (Inl e, tr @ [ev_enter])
      | Inr x \<Rightarrow>
          (case body x (tr @ [ev_enter]) of
             (r, tr1) \<Rightarrow>
               (case aexit cm tr1 (case r of Inl e \<Rightarrow> Some e | Inr _ \<Rightarrow> None) of
                  Inl e' \<Rightarrow> (Inl e', tr1 @ [ev_exit])
                | Inr swallow \<Rightarrow> (if swallow then Inr () else r, tr1 @ [ev_exit]))))"

text \<open>
  \<^verbatim>\<open>
  async def main():
      client = MCPOpenAIClient()
      async with sse_client("http://localhost:8050/sse") as (read_stream, write_stream):
          async with ClientSession(read_stream, write_stream) as session:
              await client.connect_to_server(session)
              query = "What's 1 plus 1?"
              response = await client.process_query(query)
  \<close>
\<close>

definition main :: "env \<Rightarrow> unit io" where
  "main E tr =
     (case MCPOpenAIClient E ''gpt-4o'' of
        Inl e \<Rightarrow> (Inl e, tr)
      | Inr client0 \<Rightarrow>
          async_with (sse_client E ''http://localhost:8050/sse'')
            (Enter_sse_client ''http://localhost:8050/sse'') Exit_sse_client
            (\<lambda>(read_stream, write_stream).
               async_with (ClientSession E read_stream write_stream)
                 Enter_ClientSession Exit_ClientSession
                 (\<lambda>s tr0.
                    case connect_to_server client0 s tr0 of
                      (Inl e, _, tr1) \<Rightarrow> (Inl e, tr1)
                    | (Inr _, client1, tr1) \<Rightarrow>
                        (case process_query (json_loads E) client1
                                ''What's 1 plus 1?'' tr1 of
                           (Inl e, tr2) \<Rightarrow> (Inl e, tr2)
                         | (Inr response, tr2) \<Rightarrow> (Inr (), tr2))))
            tr)"

section \<open>client-sse.py\<close>

text \<open>
  \<^verbatim>\<open>
  async def main():
      async with sse_client("http://localhost:8050/sse") as (read_stream, write_stream):
          async with ClientSession(read_stream, write_stream) as session:
              await session.initialize()
              tools_result = await session.list_tools()
              result = await session.call_tool("add", arguments={"a": 2, "b": 3})
              print(f"2 + 3 = {result.content[0].text}")
  \<close>
\<close>

definition main_sse :: "env \<Rightarrow> unit io" where
  "main_sse E tr =
     async_with (sse_client E ''http://localhost:8050/sse'')
       (Enter_sse_client ''http://localhost:8050/sse'') Exit_sse_client
       (\<lambda>(read_stream, write_stream).
          async_with (ClientSession E read_stream write_stream)
            Enter_ClientSession Exit_ClientSession
            (\<lambda>s tr0.
               case initialize s tr0 of
                 Inl e \<Rightarrow> (Inl e, tr0 @ [Initialize])
               | Inr _ \<Rightarrow>
                   (let tr1 = tr0 @ [Initialize] in
                    case list_tools s tr1 of
                      Inl e \<Rightarrow> (Inl e, tr1 @ [List_tools])
                    | Inr tools_result \<Rightarrow>
                        (let tr2 = tr1 @ [List_tools];
                             arguments = JDict [(''a'', JInt 2), (''b'', JInt 3)];
                             tr3 = tr2 @ [Call_tool ''add'' arguments]
                         in case call_tool s tr2 ''add'' arguments of
                              Inl e \<Rightarrow> (Inl e, tr3)
                            | Inr result \<Rightarrow>
                                (case result_content result of
                                   [] \<Rightarrow> (Inl IndexError, tr3)
                                 | TextContent t # _ \<Rightarrow> (Inr (), tr3)
                                 | _ # _ \<Rightarrow> (Inl AttributeError, tr3))))))
       tr"

section \<open>Reading a trace\<close>

text \<open>
  An LLM round trip is one \<open>Create\<close> event, a tool dispatch one \<open>Call_tool\<close> event. The
  transport connection is entered and left by the two \<open>sse_client\<close> events.
\<close>

fun is_create :: "event \<Rightarrow> bool" where
  "is_create (Create a) = True"
| "is_create ev = False"

fun is_call_tool :: "event \<Rightarrow> bool" where
  "is_call_tool (Call_tool n a) = True"
| "is_call_tool ev = False"

fun is_sse_event :: "event \<Rightarrow> bool" where
  "is_sse_event (Enter_sse_client url) = True"
| "is_sse_event Exit_sse_client = True"
| "is_sse_event ev = False"

definition llm_round_trips :: "trace \<Rightarrow> nat" where
  "llm_round_trips tr = length (filter is_create tr)"

definition tool_dispatches :: "trace \<Rightarrow> nat" where
  "tool_dispatches tr = length (filter is_call_tool tr)"

text \<open>
  The exception, if any, that the collaborator raised when the call recorded by an event
  was made after the history \<open>h\<close>. Only the calls that \<open>process_query\<close> makes are of
  interest here.
\<close>

fun raised :: "client \<Rightarrow> trace \<Rightarrow> event \<Rightarrow> error option" where
  "raised self h List_tools =
     (case session self of
        None \<Rightarrow> None
      | Some s \<Rightarrow> (case list_tools s h of Inl e \<Rightarrow> Some e | Inr _ \<Rightarrow> None))"
| "raised self h (Call_tool n a) =
     (case session self of
        None \<Rightarrow> None
      | Some s \<Rightarrow> (case call_tool s h n a of Inl e \<Rightarrow> Some e | Inr _ \<Rightarrow> None))"
| "raised self h (Create args) =
     (case create (openai_client self) h args of Inl e \<Rightarrow> Some e | Inr _ \<Rightarrow> None)"
| "raised self h ev = None"

section \<open>Concrete collaborators\<close>

text \<open>
  The scenario of the repository: the query "What's 1 plus 1?", an LLM that asks for
  \<^verbatim>\<open>add(a=1, b=1)\<close> and then answers, and a session in front of the server above. They
  serve as the concrete inputs at which the theorems below are instantiated.
\<close>

definition demo_arguments :: string where
  \<open>demo_arguments = ''{"a": 1, "b": 1}''\<close>

definition demo_loads :: "string \<Rightarrow> error + json" where
  "demo_loads s =
     (if s = demo_arguments then Inr (JDict [(''a'', JInt 1), (''b'', JInt 1)])
      else Inl JSONDecodeError)"

definition demo_tool_call :: tool_call where
  "demo_tool_call =
     \<lparr>tc_id = ''call_1'',
      tc_function = \<lparr>fn_name = ''add'', fn_arguments = demo_arguments\<rparr>\<rparr>"

definition demo_first_response :: chat_completion where
  "demo_first_response =
     \<lparr>choices = [\<lparr>message = \<lparr>content = None, tool_calls = Some [demo_tool_call]\<rparr>\<rparr>]\<rparr>"

definition demo_final_response :: chat_completion where
  "demo_final_response =
     \<lparr>choices = [\<lparr>message = \<lparr>content = Some ''1 plus 1 is 2'', tool_calls = None\<rparr>\<rparr>]\<rparr>"

definition demo_openai :: openai where
  "demo_openai =
     \<lparr>create = (\<lambda>tr args. if kw_tool_choice args = ''auto'' then Inr demo_first_response
                            else Inr demo_final_response)\<rparr>"

definition plain_openai :: openai where
  "plain_openai = \<lparr>create = (\<lambda>tr args. Inr demo_final_response)\<rparr>"

definition demo_call_tool :: "trace \<Rightarrow> string \<Rightarrow> json \<Rightarrow> error + call_tool_result" where
  "demo_call_tool tr n a =
     (if n = ''add'' \<and> a = JDict [(''a'', JInt 1), (''b'', JInt 1)]
      then Inr \<lparr>result_content = [TextContent ''2''], isError = False\<rparr>
      else Inl UnknownTool)"

definition demo_session :: client_session where
  "demo_session =
     \<lparr>initialize = (\<lambda>tr. Inr ()),
      list_tools = (\<lambda>tr. Inr \<lparr>tools = map descriptor (registry mcp)\<rparr>),
      call_tool = demo_call_tool\<rparr>"

definition failing_session :: client_session where
  "failing_session = demo_session\<lparr>call_tool := (\<lambda>tr n a. Inl TransportError)\<rparr>"

definition empty_session :: client_session where
  "empty_session =
     demo_session\<lparr>call_tool := (\<lambda>tr n a. Inr \<lparr>result_content = [], isError = False\<rparr>)\<rparr>"

definition demo_client :: client where
  "demo_client = \<lparr>session = Some demo_session, openai_client = demo_openai, model = ''gpt-4o''\<rparr>"

definition demo_env :: env where
  "demo_env =
     \<lparr>json_loads = demo_loads,
      AsyncOpenAI = Inr demo_openai,
      sse_client = (\<lambda>url. \<lparr>aenter = (\<lambda>tr. Inr (Sse_stream 0, Sse_stream 1)),
                           aexit = (\<lambda>tr exc. Inr False)\<rparr>),
      ClientSession = (\<lambda>r w. \<lparr>aenter = (\<lambda>tr. Inr demo_session),
                               aexit = (\<lambda>tr exc. Inr False)\<rparr>)\<rparr>"

text \<open>The tools of the demo session in the OpenAI format.\<close>

definition demo_tools :: "json list" where
  "demo_tools =
     [JDict [(''type'', JStr ''function''),
             (''function'',
              JDict [(''name'', JStr ''add''),
                     (''description'', JStr ''Add two numbers together''),
                     (''parameters'',
                      JDict [(''a'', JStr ''integer''), (''b'', JStr ''integer'')])])]]"

section \<open>Names for the values the properties talk about\<close>

text \<open>
  The dictionaries that \<^verbatim>\<open>process_query\<close> and \<^verbatim>\<open>_handle_tool_calls\<close> put into the message
  list, the event of dispatching one tool call, and the keyword arguments of the first
  and of the follow-up request, as the definitions above build them.
\<close>

definition user_message :: "string \<Rightarrow> message" where
  "user_message q = Dict [(''role'', ''user''), (''content'', q)]"

definition tool_message :: "tool_call \<Rightarrow> string \<Rightarrow> message" where
  "tool_message tc t =
     Dict [(''role'', ''tool''), (''tool_call_id'', tc_id tc), (''content'', t)]"

definition dispatch_event :: "tool_call \<Rightarrow> json \<Rightarrow> event" where
  "dispatch_event tc a = Call_tool (fn_name (tc_function tc)) a"

definition first_request :: "client \<Rightarrow> string \<Rightarrow> json list \<Rightarrow> create_args" where
  "first_request self q ts =
     \<lparr>kw_model = model self, kw_messages = [user_message q], kw_tools = Some ts,
      kw_tool_choice = ''auto''\<rparr>"

definition followup_request :: "client \<Rightarrow> message list \<Rightarrow> json list \<Rightarrow> create_args" where
  "followup_request self msgs ts =
     \<lparr>kw_model = model self, kw_messages = msgs, kw_tools = Some ts,
      kw_tool_choice = ''none''\<rparr>"

text \<open>The run of the scenario: its query, its final message list, its one dispatch.\<close>

definition demo_query :: string where
  "demo_query = ''What's 1 plus 1?''"

definition demo_messages :: "message list" where
  "demo_messages =
     [user_message demo_query,
      Assistant \<lparr>content = None, tool_calls = Some [demo_tool_call]\<rparr>,
      tool_message demo_tool_call ''2'']"

definition demo_dispatch :: event where
  "demo_dispatch = Call_tool ''add'' (JDict [(''a'', JInt 1), (''b'', JInt 1)])"

definition plain_client :: client where
  "plain_client = demo_client\<lparr>openai_client := plain_openai\<rparr>"

definition failing_client :: client where
  "failing_client = demo_client\<lparr>session := Some failing_session\<rparr>"

lemmas demo_defs =
  demo_client_def demo_session_def demo_openai_def demo_loads_def demo_tool_call_def
  demo_call_tool_def demo_first_response_def demo_final_response_def demo_query_def
  demo_messages_def demo_dispatch_def failing_client_def failing_session_def
  plain_client_def plain_openai_def
  first_request_def followup_request_def user_message_def tool_message_def dispatch_event_def

text \<open>
  A session that reports a failed tool the way the MCP protocol does for a tool that is
  unknown to the server or rejects its arguments: \<open>call_tool\<close> returns normally, with a
  result whose \<open>isError\<close> is set and whose text describes the failure. The LLM of this
  run first asks for the unknown tool "subtract" and then for "add".
\<close>

definition unknown_tool_call :: tool_call where
  "unknown_tool_call =
     \<lparr>tc_id = ''call_0'',
      tc_function = \<lparr>fn_name = ''subtract'', fn_arguments = demo_arguments\<rparr>\<rparr>"

definition flagged_result :: call_tool_result where
  "flagged_result =
     \<lparr>result_content = [TextContent ''Unknown tool: subtract''], isError = True\<rparr>"

definition flagging_session :: client_session where
  "flagging_session =
     demo_session\<lparr>call_tool :=
       (\<lambda>tr n a. if n = ''add'' then demo_call_tool tr n a else Inr flagged_result)\<rparr>"

definition flagging_first_response :: chat_completion where
  "flagging_first_response =
     \<lparr>choices =
        [\<lparr>message = \<lparr>content = None,
                      tool_calls = Some [unknown_tool_call, demo_tool_call]\<rparr>\<rparr>]\<rparr>"

definition flagging_openai :: openai where
  "flagging_openai =
     \<lparr>create = (\<lambda>tr args. if kw_tool_choice args = ''auto'' then Inr flagging_first_response
                            else Inr demo_final_response)\<rparr>"

definition flagging_client :: client where
  "flagging_client =
     \<lparr>session = Some flagging_session, openai_client = flagging_openai, model = ''gpt-4o''\<rparr>"

definition unknown_dispatch :: event where
  "unknown_dispatch = Call_tool ''subtract'' (JDict [(''a'', JInt 1), (''b'', JInt 1)])"

definition flagging_messages :: "message list" where
  "flagging_messages =
     [user_message demo_query,
      Assistant \<lparr>content = None, tool_calls = Some [unknown_tool_call, demo_tool_call]\<rparr>,
      tool_message unknown_tool_call ''Unknown tool: subtract'',
      tool_message demo_tool_call ''2'']"

lemmas flagging_defs =
  flagging_client_def flagging_session_def flagging_openai_def flagging_first_response_def
  flagging_messages_def flagged_result_def unknown_tool_call_def unknown_dispatch_def

section \<open>Properties of the server\<close>

text \<open>
  Claim C1. For all integers \<open>a\<close> and \<open>b\<close>, the handler of the "add" tool returns
  \<open>a + b\<close>. Python integers have arbitrary precision, so the native semantics is
  mathematical addition on \<open>int\<close>: no wrap-around and no overflow error.
\<close>

theorem add_returns_sum: "add a b = a + b"
  by (simp add: add_def)

text \<open>
  Claim C7. The registry of the server holds exactly one entry: the tool named "add",
  described as "Add two numbers together", whose input schema declares the two
  integer parameters \<open>a\<close> and \<open>b\<close> and whose output is an integer.
\<close>

theorem registry_single_add:
  "registry mcp =
     [\<lparr>descriptor =
         \<lparr>name = ''add'',
          description = Some ''Add two numbers together'',
          inputSchema = JDict [(''a'', JStr ''integer''), (''b'', JStr ''integer'')]\<rparr>,
       output_type = ''integer''\<rparr>]"
  by (simp add: mcp_def tool_decorator_def FastMCP_def add_def_def)

section \<open>The dispatch loop\<close>

text \<open>A loop over a concatenation runs the first part, then the second part unless the first raised.\<close>

lemma handle_tool_calls_append:
  "handle_tool_calls loads self (pre @ post) msgs tr =
     (case handle_tool_calls loads self pre msgs tr of
        (Inl e, m, t) \<Rightarrow> (Inl e, m, t)
      | (Inr u, m, t) \<Rightarrow> handle_tool_calls loads self post m t)"
proof (induction pre arbitrary: msgs tr)
  case Nil
  then show ?case by simp
next
  case (Cons tc pre)
  then show ?case
    by (simp add: Let_def split: option.split sum.split list.split content_item.split)
qed

text \<open>
  One iteration either raises, leaving the message list alone and at most one dispatch
  in the trace, or appends one tool message and one dispatch and goes on.
\<close>

lemma handle_tool_calls_step:
  assumes "handle_tool_calls loads self (tc # tcs) msgs tr = (r, msgs', tr')"
  shows "(msgs' = msgs \<and> (\<exists>e. r = Inl e) \<and>
            (tr' = tr \<or> (\<exists>a. tr' = tr @ [Call_tool (fn_name (tc_function tc)) a])))
       \<or> (\<exists>t a. handle_tool_calls loads self tcs
                   (msgs @ [Dict [(''role'', ''tool''), (''tool_call_id'', tc_id tc),
                                  (''content'', t)]])
                   (tr @ [Call_tool (fn_name (tc_function tc)) a]) = (r, msgs', tr'))"
proof (cases "session self")
  case None
  with assms show ?thesis by auto
next
  case (Some s)
  show ?thesis
  proof (cases "loads (fn_arguments (tc_function tc))")
    case (Inl e)
    with Some assms show ?thesis by auto
  next
    case (Inr a)
    show ?thesis
    proof (cases "call_tool s tr (fn_name (tc_function tc)) a")
      case (Inl e)
      with Some Inr assms show ?thesis by (auto simp: Let_def)
    next
      case result: (Inr result)
      show ?thesis
      proof (cases "result_content result")
        case Nil
        with Some Inr result assms show ?thesis by (auto simp: Let_def)
      next
        case (Cons item others)
        with Some Inr result assms show ?thesis
          by (cases item) (auto simp: Let_def)
      qed
    qed
  qed
qed

text \<open>On every path the loop only appends: messages to the list, dispatches to the trace.\<close>

lemma handle_tool_calls_shape:
  "handle_tool_calls loads self tcs msgs tr = (r, msgs', tr') \<Longrightarrow>
     \<exists>new calls. msgs' = msgs @ new \<and> tr' = tr @ calls \<and> length calls \<le> length tcs \<and>
       (\<forall>ev\<in>set calls. is_call_tool ev)"
proof (induction tcs arbitrary: msgs tr)
  case Nil
  then show ?case by simp
next
  case (Cons tc tcs)
  from handle_tool_calls_step [OF Cons.prems]
  consider "msgs' = msgs" "tr' = tr"
    | a where "msgs' = msgs" "tr' = tr @ [Call_tool (fn_name (tc_function tc)) a]"
    | t a where "handle_tool_calls loads self tcs
                   (msgs @ [Dict [(''role'', ''tool''), (''tool_call_id'', tc_id tc),
                                  (''content'', t)]])
                   (tr @ [Call_tool (fn_name (tc_function tc)) a]) = (r, msgs', tr')"
    by blast
  then show ?case
  proof cases
    case 1
    then show ?thesis by (intro exI [of _ "[]"]) simp
  next
    case 2
    then show ?thesis
      by (intro exI [of _ "[]"] exI [of _ "[Call_tool (fn_name (tc_function tc)) a]"]) simp
  next
    case 3
    from Cons.IH [OF 3] obtain new calls where
      "msgs' = (msgs @ [Dict [(''role'', ''tool''), (''tool_call_id'', tc_id tc),
                              (''content'', t)]]) @ new"
      "tr' = (tr @ [Call_tool (fn_name (tc_function tc)) a]) @ calls"
      "length calls \<le> length tcs"
      "\<forall>ev\<in>set calls. is_call_tool ev" by blast
    then show ?thesis
      by (intro exI [of _ "Dict [(''role'', ''tool''), (''tool_call_id'', tc_id tc),
                                 (''content'', t)] # new"]
                exI [of _ "Call_tool (fn_name (tc_function tc)) a # calls"]) auto
  qed
qed

text \<open>
  When the loop returns, it has appended one tool message and made one dispatch for
  each tool call, in the order of the calls.
\<close>

lemma handle_tool_calls_success:
  "handle_tool_calls loads self tcs msgs tr = (Inr u, msgs', tr') \<Longrightarrow>
     \<exists>argss texts. length argss = length tcs \<and> length texts = length tcs \<and>
        msgs' = msgs @ map2 tool_message tcs texts \<and>
        tr' = tr @ map2 dispatch_event tcs argss"
proof (induction tcs arbitrary: msgs tr)
  case Nil
  then show ?case by simp
next
  case (Cons tc tcs)
  from Cons.prems obtain a t where
    rest: "handle_tool_calls loads self tcs (msgs @ [tool_message tc t])
             (tr @ [dispatch_event tc a]) = (Inr u, msgs', tr')"
    by (auto simp: Let_def tool_message_def dispatch_event_def
        split: option.splits sum.splits list.splits content_item.splits)
  from Cons.IH [OF rest] obtain argss texts where
    l: "length argss = length tcs" "length texts = length tcs" and
    m: "msgs' = (msgs @ [tool_message tc t]) @ map2 tool_message tcs texts" and
    t: "tr' = (tr @ [dispatch_event tc a]) @ map2 dispatch_event tcs argss"
    by blast
  show ?case
    apply (rule exI [of _ "a # argss"])
    apply (rule exI [of _ "t # texts"])
    using l m t by simp
qed

text \<open>A call of the session that raises ends the loop with that exception, as its last dispatch.\<close>

lemma handle_tool_calls_raised:
  "handle_tool_calls loads self tcs msgs tr = (r, msgs', tr @ calls) \<Longrightarrow>
   i < length calls \<Longrightarrow> raised self (tr @ take i calls) (calls ! i) = Some e \<Longrightarrow>
     r = Inl e \<and> Suc i = length calls"
proof (induction tcs arbitrary: msgs tr calls i)
  case Nil
  then show ?case by simp
next
  case (Cons tc tcs)
  show ?case
  proof (cases "session self")
    case None
    with Cons.prems show ?thesis by simp
  next
    case (Some s)
    show ?thesis
    proof (cases "loads (fn_arguments (tc_function tc))")
      case (Inl e')
      with Some Cons.prems show ?thesis by simp
    next
      case (Inr a)
      let ?c = "Call_tool (fn_name (tc_function tc)) a"
      show ?thesis
      proof (cases "call_tool s tr (fn_name (tc_function tc)) a")
        case (Inl e')
        with Some Inr Cons.prems(1) have "calls = [?c]" "r = Inl e'"
          by (auto simp: Let_def)
        with Cons.prems(2,3) Some Inl show ?thesis by simp
      next
        case result: (Inr result)
        have none: "raised self tr ?c = None"
          using Some result by simp
        show ?thesis
        proof (cases "\<exists>t others. result_content result = TextContent t # others")
          case False
          with Some Inr result Cons.prems(1) have "calls = [?c]"
            by (auto simp: Let_def split: list.splits content_item.splits)
          with Cons.prems(2,3) none show ?thesis by simp
        next
          case True
          then obtain t others where "result_content result = TextContent t # others"
            by blast
          with Some Inr result Cons.prems(1)
          have rest: "handle_tool_calls loads self tcs
                  (msgs @ [Dict [(''role'', ''tool''), (''tool_call_id'', tc_id tc),
                                 (''content'', t)]])
                  (tr @ [?c]) = (r, msgs', tr @ calls)"
            by (simp add: Let_def)
          from handle_tool_calls_shape [OF rest] obtain calls' where
            calls: "calls = ?c # calls'" by auto
          show ?thesis
          proof (cases i)
            case 0
            with Cons.prems(3) calls none show ?thesis by simp
          next
            case (Suc j)
            from rest calls have "handle_tool_calls loads self tcs
                  (msgs @ [Dict [(''role'', ''tool''), (''tool_call_id'', tc_id tc),
                                 (''content'', t)]])
                  (tr @ [?c]) = (r, msgs', (tr @ [?c]) @ calls')"
              by simp
            moreover have "j < length calls'" using Cons.prems(2) calls Suc by simp
            moreover have "raised self ((tr @ [?c]) @ take j calls') (calls' ! j) = Some e"
              using Cons.prems(3) calls Suc by simp
            ultimately have "r = Inl e \<and> Suc j = length calls'"
              by (rule Cons.IH)
            with calls Suc show ?thesis by simp
          qed
        qed
      qed
    qed
  qed
qed

section \<open>The paths of \<open>process_query\<close>\<close>

lemma get_mcp_tools_trace:
  "get_mcp_tools self tr = (Inr ts, tr1) \<Longrightarrow> tr1 = tr @ [List_tools]"
  by (auto simp: get_mcp_tools_def split: option.splits sum.splits)

lemma get_mcp_tools_failure:
  "get_mcp_tools self tr = (Inl e, tr1) \<Longrightarrow> tr1 = tr \<or> tr1 = tr @ [List_tools]"
  by (auto simp: get_mcp_tools_def split: option.splits sum.splits)

text \<open>The first request is sent unless the query is empty; the follow-up is always sent.\<close>

lemma send_first:
  "send_to_openai self (Some query) (Some []) (Some ts) True tr1 =
     (if query = '''' then (Inl ValueError, tr1)
      else (create (openai_client self) tr1 (first_request self query ts),
            tr1 @ [Create (first_request self query ts)]))"
  by (simp add: send_to_openai_def first_request_def user_message_def Let_def)

lemma send_followup:
  "msgs \<noteq> [] \<Longrightarrow>
   send_to_openai self (Some '''') (Some msgs) (Some ts) False tr3 =
     (create (openai_client self) tr3 (followup_request self msgs ts),
      tr3 @ [Create (followup_request self msgs ts)])"
  by (simp add: send_to_openai_def followup_request_def Let_def)

text \<open>An empty query is refused after the tools were listed and before any LLM call.\<close>

lemma empty_query_value_error:
  "get_mcp_tools self tr = (Inr ts, tr1) \<Longrightarrow>
     process_query loads self '''' tr = (Inl ValueError, tr @ [List_tools])"
  by (frule get_mcp_tools_trace) (simp add: process_query_def send_first)

text \<open>A failure of the tool listing or of the first LLM call ends the query with that failure.\<close>

lemma list_tools_failure_propagates:
  "session self = Some s \<Longrightarrow> list_tools s tr = Inl e \<Longrightarrow>
     process_query loads self query tr = (Inl e, tr @ [List_tools])"
  by (simp add: process_query_def get_mcp_tools_def)

lemma first_call_failure_propagates:
  "get_mcp_tools self tr = (Inr ts, tr1) \<Longrightarrow> query \<noteq> '''' \<Longrightarrow>
   create (openai_client self) tr1 (first_request self query ts) = Inl e \<Longrightarrow>
     process_query loads self query tr = (Inl e, tr1 @ [Create (first_request self query ts)])"
  by (simp add: process_query_def send_first)

text \<open>The path through the dispatch loop, with the two requests named.\<close>

lemma process_query_dispatch:
  assumes tools_ok: "get_mcp_tools self tr = (Inr ts, tr1)"
    and query: "query \<noteq> ''''"
    and first: "create (openai_client self) tr1 (first_request self query ts) = Inr response"
    and choice: "choices response = ch # chs"
    and calls: "tool_calls (message ch) = Some tcs" "tcs \<noteq> []"
  shows "process_query loads self query tr =
     (case handle_tool_calls loads self tcs [user_message query, Assistant (message ch)]
             (tr1 @ [Create (first_request self query ts)]) of
        (Inl e, msgs', tr3) \<Rightarrow> (Inl e, tr3)
      | (Inr u, msgs', tr3) \<Rightarrow>
          (case create (openai_client self) tr3 (followup_request self msgs' ts) of
             Inl e \<Rightarrow> (Inl e, tr3 @ [Create (followup_request self msgs' ts)])
           | Inr final_response \<Rightarrow>
               (case choices final_response of
                  [] \<Rightarrow> (Inl IndexError, tr3 @ [Create (followup_request self msgs' ts)])
                | ch2 # chs2 \<Rightarrow>
                    (Inr (content (message ch2)),
                     tr3 @ [Create (followup_request self msgs' ts)]))))"
proof -
  obtain r msgs' tr3 where h: "handle_tool_calls loads self tcs
     [user_message query, Assistant (message ch)]
     (tr1 @ [Create (first_request self query ts)]) = (r, msgs', tr3)"
    by (metis prod_cases3)
  from handle_tool_calls_shape [OF h] have ne: "msgs' \<noteq> []" by auto
  show ?thesis
    using tools_ok query first choice calls h send_followup [OF ne]
    by (simp add: process_query_def send_first user_message_def
        split: sum.split list.split)
qed

text \<open>Every run of \<open>process_query\<close> leaves one of four traces.\<close>

lemma process_query_shape:
  assumes run: "process_query loads self query tr = (r, tr')"
  shows "tr' = tr \<or> tr' = tr @ [List_tools]
       \<or> (\<exists>ts calls. tr' = tr @ [List_tools, Create (first_request self query ts)] @ calls \<and>
             (\<forall>ev\<in>set calls. is_call_tool ev))
       \<or> (\<exists>ts response ch chs tcs u msgs' tr3.
             get_mcp_tools self tr = (Inr ts, tr @ [List_tools]) \<and> query \<noteq> '''' \<and>
             create (openai_client self) (tr @ [List_tools]) (first_request self query ts)
               = Inr response \<and>
             choices response = ch # chs \<and> tool_calls (message ch) = Some tcs \<and> tcs \<noteq> [] \<and>
             handle_tool_calls loads self tcs [user_message query, Assistant (message ch)]
               (tr @ [List_tools, Create (first_request self query ts)]) = (Inr u, msgs', tr3) \<and>
             tr' = tr3 @ [Create (followup_request self msgs' ts)])"
proof (cases "get_mcp_tools self tr")
  case (Pair g tr1)
  show ?thesis
  proof (cases g)
    case (Inl e)
    with Pair run get_mcp_tools_failure [of self tr e tr1] show ?thesis
      by (auto simp: process_query_def)
  next
    case (Inr ts)
    with Pair have tools_ok: "get_mcp_tools self tr = (Inr ts, tr1)" by simp
    then have tr1: "tr1 = tr @ [List_tools]" by (rule get_mcp_tools_trace)
    show ?thesis
    proof (cases "query = ''''")
      case True
      with tools_ok tr1 run show ?thesis
        by (auto simp: process_query_def send_first)
    next
      case query: False
      show ?thesis
      proof (cases "create (openai_client self) tr1 (first_request self query ts)")
        case (Inl e)
        with tools_ok tr1 run query have "tr' = tr @ [List_tools, Create (first_request self query ts)] @ []"
          by (auto simp: process_query_def send_first)
        then show ?thesis by (metis empty_iff list.set(1))
      next
        case first: (Inr response)
        show ?thesis
        proof (cases "choices response")
          case Nil
          with tools_ok tr1 run query first
          have "tr' = tr @ [List_tools, Create (first_request self query ts)] @ []"
            by (auto simp: process_query_def send_first)
          then show ?thesis by (metis empty_iff list.set(1))
        next
          case (Cons ch chs)
          show ?thesis
          proof (cases "truthy_list (tool_calls (message ch))")
            case False
            with tools_ok tr1 run query first Cons
            have "tr' = tr @ [List_tools, Create (first_request self query ts)] @ []"
              by (auto simp: process_query_def send_first)
            then show ?thesis by (metis empty_iff list.set(1))
          next
            case True
            then obtain tcs where calls: "tool_calls (message ch) = Some tcs" "tcs \<noteq> []"
              by (cases "tool_calls (message ch)") auto
            note unfold = process_query_dispatch [OF tools_ok query first Cons calls, of loads]
            obtain r3 msgs' tr3 where h: "handle_tool_calls loads self tcs
                [user_message query, Assistant (message ch)]
                (tr1 @ [Create (first_request self query ts)]) = (r3, msgs', tr3)"
              by (metis prod_cases3)
            show ?thesis
            proof (cases r3)
              case (Inl e)
              with unfold h run have "tr' = tr3" by simp
              moreover from handle_tool_calls_shape [OF h] obtain calls where
                "tr3 = (tr1 @ [Create (first_request self query ts)]) @ calls"
                "\<forall>ev\<in>set calls. is_call_tool ev" by blast
              ultimately have "tr' = tr @ [List_tools, Create (first_request self query ts)] @ calls
                  \<and> (\<forall>ev\<in>set calls. is_call_tool ev)"
                using tr1 by simp
              then show ?thesis by blast
            next
              case (Inr u)
              with unfold h run have "tr' = tr3 @ [Create (followup_request self msgs' ts)]"
                by (auto split: sum.splits list.splits)
              with tools_ok tr1 query first Cons calls h Inr show ?thesis
                by auto
            qed
          qed
        qed
      qed
    qed
  qed
qed


section \<open>The scenario, step by step\<close>

lemma demo_get_mcp_tools:
  "get_mcp_tools demo_client tr = (Inr demo_tools, tr @ [List_tools])"
  by (simp add: get_mcp_tools_def demo_client_def demo_session_def demo_tools_def mcp_def
      tool_decorator_def FastMCP_def add_def_def)

lemma plain_get_mcp_tools:
  "get_mcp_tools plain_client tr = (Inr demo_tools, tr @ [List_tools])"
  by (simp add: get_mcp_tools_def plain_client_def demo_client_def demo_session_def
      demo_tools_def mcp_def tool_decorator_def FastMCP_def add_def_def)

lemma failing_get_mcp_tools:
  "get_mcp_tools failing_client tr = (Inr demo_tools, tr @ [List_tools])"
  by (simp add: get_mcp_tools_def failing_client_def failing_session_def
      demo_client_def demo_session_def demo_tools_def mcp_def
      tool_decorator_def FastMCP_def add_def_def)

lemma demo_query_nonempty: "demo_query \<noteq> ''''"
  by (simp add: demo_query_def)

lemma demo_first:
  "create (openai_client demo_client) ([] @ [List_tools])
      (first_request demo_client demo_query demo_tools) = Inr demo_first_response"
  by (simp add: demo_defs)

lemma failing_first:
  "create (openai_client failing_client) ([] @ [List_tools])
      (first_request failing_client demo_query demo_tools) = Inr demo_first_response"
  by (simp add: demo_defs)

lemma demo_choice:
  "choices demo_first_response =
      \<lparr>message = \<lparr>content = None, tool_calls = Some [demo_tool_call]\<rparr>\<rparr> # []"
  by (simp add: demo_first_response_def)

lemma demo_handle:
  "handle_tool_calls demo_loads demo_client [demo_tool_call]
     [user_message demo_query, Assistant \<lparr>content = None, tool_calls = Some [demo_tool_call]\<rparr>]
     [List_tools, Create (first_request demo_client demo_query demo_tools)] =
   (Inr (), demo_messages,
    [List_tools, Create (first_request demo_client demo_query demo_tools), demo_dispatch])"
  by (simp add: demo_defs)

lemma failing_handle:
  "handle_tool_calls demo_loads failing_client [demo_tool_call]
     [user_message demo_query, Assistant \<lparr>content = None, tool_calls = Some [demo_tool_call]\<rparr>]
     [List_tools, Create (first_request failing_client demo_query demo_tools)] =
   (Inl TransportError,
    [user_message demo_query, Assistant \<lparr>content = None, tool_calls = Some [demo_tool_call]\<rparr>],
    [List_tools, Create (first_request failing_client demo_query demo_tools), demo_dispatch])"
  by (simp add: demo_defs)

lemma demo_final:
  "create (openai_client demo_client)
      [List_tools, Create (first_request demo_client demo_query demo_tools), demo_dispatch]
      (followup_request demo_client demo_messages demo_tools) = Inr demo_final_response"
  by (simp add: demo_defs)

lemma demo_choice2:
  "choices demo_final_response =
      \<lparr>message = \<lparr>content = Some ''1 plus 1 is 2'', tool_calls = None\<rparr>\<rparr> # []"
  by (simp add: demo_final_response_def)


text \<open>The same query against a session whose \<open>call_tool\<close> raises.\<close>

lemma failing_run:
  "process_query demo_loads failing_client demo_query [] =
     (Inl TransportError,
      [List_tools, Create (first_request failing_client demo_query demo_tools), demo_dispatch])"
  using process_query_dispatch [OF failing_get_mcp_tools demo_query_nonempty failing_first
      demo_choice, of "[demo_tool_call]" demo_loads] failing_handle
  by simp

text \<open>
  The run against the session that flags the failure of the unknown tool: the flagged
  result is treated like any other, the second tool call is dispatched, the follow-up
  call is made and the query returns an answer.
\<close>

lemma flagging_get_mcp_tools:
  "get_mcp_tools flagging_client tr = (Inr demo_tools, tr @ [List_tools])"
  by (simp add: get_mcp_tools_def flagging_client_def flagging_session_def
      demo_session_def demo_tools_def mcp_def tool_decorator_def FastMCP_def add_def_def)

lemma flagging_first:
  "create (openai_client flagging_client) ([] @ [List_tools])
      (first_request flagging_client demo_query demo_tools) = Inr flagging_first_response"
  by (simp add: flagging_defs first_request_def)

lemma flagging_choice:
  "choices flagging_first_response =
      \<lparr>message = \<lparr>content = None,
                  tool_calls = Some [unknown_tool_call, demo_tool_call]\<rparr>\<rparr> # []"
  by (simp add: flagging_first_response_def)

lemma flagging_handle:
  "handle_tool_calls demo_loads flagging_client [unknown_tool_call, demo_tool_call]
     [user_message demo_query,
      Assistant \<lparr>content = None, tool_calls = Some [unknown_tool_call, demo_tool_call]\<rparr>]
     [List_tools, Create (first_request flagging_client demo_query demo_tools)] =
   (Inr (), flagging_messages,
    [List_tools, Create (first_request flagging_client demo_query demo_tools),
     unknown_dispatch, demo_dispatch])"
  by (simp add: flagging_defs demo_defs)

lemma flagging_final:
  "create (openai_client flagging_client)
      [List_tools, Create (first_request flagging_client demo_query demo_tools),
       unknown_dispatch, demo_dispatch]
      (followup_request flagging_client flagging_messages demo_tools) = Inr demo_final_response"
  by (simp add: flagging_defs followup_request_def)

lemma flagging_run:
  "process_query demo_loads flagging_client demo_query [] =
     (Inr (Some ''1 plus 1 is 2''),
      [List_tools, Create (first_request flagging_client demo_query demo_tools),
       unknown_dispatch, demo_dispatch,
       Create (followup_request flagging_client flagging_messages demo_tools)])"
  using process_query_dispatch [OF flagging_get_mcp_tools demo_query_nonempty flagging_first
      flagging_choice, of "[unknown_tool_call, demo_tool_call]" demo_loads]
    flagging_handle flagging_final
  by (simp add: demo_final_response_def)

section \<open>Properties of the orchestrator\<close>

text \<open>
  Claim C6. When the session returns its tool descriptors, \<open>get_mcp_tools\<close> returns a
  list of the same length in which the entry at each position is exactly
  \<^verbatim>\<open>{type: "function", function: {name, description, parameters}}\<close>, built from the
  descriptor at that position: its name, its description, and its input schema
  unchanged.
\<close>

theorem tools_translated:
  assumes "session self = Some s" and "list_tools s tr = Inr res"
  shows "\<exists>ts. get_mcp_tools self tr = (Inr ts, tr @ [List_tools]) \<and>
           length ts = length (tools res) \<and>
           (\<forall>i<length (tools res).
              ts ! i =
                JDict [(''type'', JStr ''function''),
                       (''function'',
                        JDict [(''name'', JStr (name (tools res ! i))),
                               (''description'', py_str (description (tools res ! i))),
                               (''parameters'', inputSchema (tools res ! i))])])"
  using assms by (simp add: get_mcp_tools_def)

text \<open>The theorem at the session of the scenario, whose only descriptor is the "add" tool.\<close>

theorem tools_translated_witness:
  "\<exists>ts. get_mcp_tools demo_client [] = (Inr ts, [] @ [List_tools]) \<and>
        length ts = length (map descriptor (registry mcp)) \<and>
        (\<forall>i<length (map descriptor (registry mcp)).
           ts ! i =
             JDict [(''type'', JStr ''function''),
                    (''function'',
                     JDict [(''name'', JStr (name (map descriptor (registry mcp) ! i))),
                            (''description'',
                             py_str (description (map descriptor (registry mcp) ! i))),
                            (''parameters'',
                             inputSchema (map descriptor (registry mcp) ! i))])])"
  using tools_translated [of demo_client demo_session "[]"
      "\<lparr>tools = map descriptor (registry mcp)\<rparr>"]
  by (simp add: demo_client_def demo_session_def)

text \<open>
  Claim C9. \<open>send_to_openai\<close> raises its \<open>ValueError\<close>, before any request is sent,
  exactly when \<open>messages\<close> is absent or empty and \<open>query\<close> is absent or empty. When
  \<open>messages\<close> is absent or empty and \<open>query\<close> is a non-empty string, it sends the
  one-element history \<^verbatim>\<open>[{role: "user", content: query}]\<close> and returns what the
  provider returns.
\<close>

theorem send_value_error_iff:
  "(send_to_openai self query messages tls allow tr = (Inl ValueError, tr)
      \<longleftrightarrow> (messages = None \<or> messages = Some []) \<and> (query = None \<or> query = Some ''''))
   \<and> ((messages = None \<or> messages = Some []) \<and> q \<noteq> '''' \<longrightarrow>
        send_to_openai self (Some q) messages tls allow tr =
          (create (openai_client self) tr
             \<lparr>kw_model = model self,
              kw_messages = [Dict [(''role'', ''user''), (''content'', q)]],
              kw_tools = tls,
              kw_tool_choice = (if allow then ''auto'' else ''none'')\<rparr>,
           tr @ [Create
             \<lparr>kw_model = model self,
              kw_messages = [Dict [(''role'', ''user''), (''content'', q)]],
              kw_tools = tls,
              kw_tool_choice = (if allow then ''auto'' else ''none'')\<rparr>]))"
  by (cases messages; cases query) (auto simp: send_to_openai_def Let_def)

text \<open>The theorem at the query "hi" with an empty message list.\<close>

theorem send_value_error_iff_witness:
  "send_to_openai demo_client (Some ''hi'') (Some []) None True [] \<noteq> (Inl ValueError, [])
   \<and> send_to_openai demo_client (Some ''hi'') (Some []) None True [] =
       (Inr demo_first_response,
        [Create \<lparr>kw_model = ''gpt-4o'',
                 kw_messages = [Dict [(''role'', ''user''), (''content'', ''hi'')]],
                 kw_tools = None,
                 kw_tool_choice = ''auto''\<rparr>])"
  using send_value_error_iff [of demo_client "Some ''hi''" "Some []" None True "[]" "''hi''"]
  by (simp add: demo_client_def demo_openai_def)

text \<open>
  Claim C10. For a tool call that is dispatched and answered, the appended tool message
  carries the text of the first content item of the result, whatever items follow it;
  when the content list of the result is empty, the loop raises \<open>IndexError\<close> at that
  call and the message list is left as it was.
\<close>

theorem first_item_only:
  assumes "session self = Some s"
    and "loads (fn_arguments (tc_function tc)) = Inr a"
    and "call_tool s tr (fn_name (tc_function tc)) a = Inr result"
  shows "(result_content result = TextContent t # others \<longrightarrow>
            handle_tool_calls loads self (tc # rest) msgs tr =
              handle_tool_calls loads self rest
                (msgs @ [Dict [(''role'', ''tool''), (''tool_call_id'', tc_id tc),
                               (''content'', t)]])
                (tr @ [Call_tool (fn_name (tc_function tc)) a]))
       \<and> (result_content result = [] \<longrightarrow>
            handle_tool_calls loads self (tc # rest) msgs tr =
              (Inl IndexError, msgs, tr @ [Call_tool (fn_name (tc_function tc)) a]))"
  using assms by (simp add: Let_def)

text \<open>
  The theorem at the call of the scenario, answered once with the text "2" and once
  with an empty content list.
\<close>

theorem first_item_only_witness:
  "handle_tool_calls demo_loads demo_client [demo_tool_call] [] [] =
     (Inr (),
      [Dict [(''role'', ''tool''), (''tool_call_id'', ''call_1''), (''content'', ''2'')]],
      [Call_tool ''add'' (JDict [(''a'', JInt 1), (''b'', JInt 1)])])
   \<and> handle_tool_calls demo_loads (demo_client\<lparr>session := Some empty_session\<rparr>)
        [demo_tool_call] [] [] =
     (Inl IndexError, [], [Call_tool ''add'' (JDict [(''a'', JInt 1), (''b'', JInt 1)])])"
  using first_item_only [of demo_client demo_session demo_loads demo_tool_call
      "JDict [(''a'', JInt 1), (''b'', JInt 1)]" "[]"
      "\<lparr>result_content = [TextContent ''2''], isError = False\<rparr>" "''2''" "[]" "[]" "[]"]
    first_item_only [of "demo_client\<lparr>session := Some empty_session\<rparr>" empty_session
      demo_loads demo_tool_call
      "JDict [(''a'', JInt 1), (''b'', JInt 1)]" "[]"
      "\<lparr>result_content = [], isError = False\<rparr>" "''2''" "[]" "[]" "[]"]
  by (simp add: demo_client_def demo_session_def empty_session_def demo_loads_def
      demo_tool_call_def demo_call_tool_def)

text \<open>
  Claim C3. When the first LLM response carries no tool-call requests (\<open>tool_calls\<close> is
  \<open>None\<close> or empty), \<open>process_query\<close> returns the content of that response; the run
  consists of the tool listing and one LLM round trip, and no tool call is dispatched.
  A first response exists only for a non-empty query: the empty query is refused
  before any LLM call (lemma \<open>empty_query_value_error\<close>).
\<close>

theorem no_tool_calls_one_round_trip:
  assumes tools_ok: "get_mcp_tools self tr = (Inr ts, tr1)"
    and query: "query \<noteq> ''''"
    and first: "create (openai_client self) tr1 (first_request self query ts) = Inr response"
    and choice: "choices response = ch # chs"
    and none: "tool_calls (message ch) = None \<or> tool_calls (message ch) = Some []"
  shows "process_query loads self query tr =
           (Inr (content (message ch)),
            tr @ [List_tools, Create (first_request self query ts)])
       \<and> llm_round_trips [List_tools, Create (first_request self query ts)] = 1
       \<and> tool_dispatches [List_tools, Create (first_request self query ts)] = 0"
proof -
  from tools_ok have tr1: "tr1 = tr @ [List_tools]" by (rule get_mcp_tools_trace)
  have falsy: "\<not> truthy_list (tool_calls (message ch))"
    using none by auto
  have "process_query loads self query tr =
          (Inr (content (message ch)), tr @ [List_tools, Create (first_request self query ts)])"
    using tools_ok query first choice falsy tr1 by (simp add: process_query_def send_first)
  then show ?thesis
    by (simp add: llm_round_trips_def tool_dispatches_def)
qed

text \<open>The theorem at an LLM that answers at once.\<close>

theorem no_tool_calls_one_round_trip_witness:
  "process_query demo_loads plain_client ''Hello'' [] =
     (Inr (Some ''1 plus 1 is 2''),
      [] @ [List_tools, Create (first_request plain_client ''Hello'' demo_tools)])
   \<and> llm_round_trips [List_tools, Create (first_request plain_client ''Hello'' demo_tools)] = 1
   \<and> tool_dispatches [List_tools, Create (first_request plain_client ''Hello'' demo_tools)] = 0"
proof -
  have first: "create (openai_client plain_client) ([] @ [List_tools])
      (first_request plain_client ''Hello'' demo_tools) = Inr demo_final_response"
    by (simp add: plain_client_def plain_openai_def)
  have none: "tool_calls (message \<lparr>message = \<lparr>content = Some ''1 plus 1 is 2'',
      tool_calls = None\<rparr>\<rparr>) = None \<or> tool_calls (message \<lparr>message =
      \<lparr>content = Some ''1 plus 1 is 2'', tool_calls = None\<rparr>\<rparr>) = Some []"
    by simp
  have q: "''Hello'' \<noteq> ''''" by simp
  from no_tool_calls_one_round_trip [OF plain_get_mcp_tools q first demo_choice2 none,
      of demo_loads]
  show ?thesis by simp
qed



text \<open>
  Claim C4, as amended. When the first LLM response carries tool-call requests, every
  dispatch succeeds and the follow-up LLM call returns a response with a first choice,
  the orchestrator makes exactly one follow-up call: it sends the user message, the
  assistant message and one tool message for each request, with tool use disabled,
  and returns the content of that second response; the run has exactly two LLM round
  trips.
\<close>

theorem tool_calls_two_round_trips:
  assumes tools_ok: "get_mcp_tools self tr = (Inr ts, tr1)"
    and query: "query \<noteq> ''''"
    and first: "create (openai_client self) tr1 (first_request self query ts) = Inr response"
    and choice: "choices response = ch # chs"
    and calls: "tool_calls (message ch) = Some tcs" "tcs \<noteq> []"
    and dispatched: "handle_tool_calls loads self tcs [user_message query, Assistant (message ch)]
                       (tr1 @ [Create (first_request self query ts)]) = (Inr u, msgs', tr3)"
    and final: "create (openai_client self) tr3 (followup_request self msgs' ts) = Inr final_response"
    and choice2: "choices final_response = ch2 # chs2"
  shows "\<exists>argss texts. length argss = length tcs \<and> length texts = length tcs \<and>
      msgs' = [user_message query, Assistant (message ch)] @ map2 tool_message tcs texts \<and>
      process_query loads self query tr =
        (Inr (content (message ch2)),
         tr @ [List_tools, Create (first_request self query ts)] @ map2 dispatch_event tcs argss
            @ [Create (followup_request self msgs' ts)]) \<and>
      llm_round_trips ([List_tools, Create (first_request self query ts)]
            @ map2 dispatch_event tcs argss @ [Create (followup_request self msgs' ts)]) = 2"
proof -
  from tools_ok have tr1: "tr1 = tr @ [List_tools]" by (rule get_mcp_tools_trace)
  from handle_tool_calls_success [OF dispatched] obtain argss texts where
    len: "length argss = length tcs" "length texts = length tcs" and
    msgs: "msgs' = [user_message query, Assistant (message ch)] @ map2 tool_message tcs texts" and
    tr3: "tr3 = (tr1 @ [Create (first_request self query ts)]) @ map2 dispatch_event tcs argss"
    by blast
  have res: "process_query loads self query tr =
      (Inr (content (message ch2)), tr3 @ [Create (followup_request self msgs' ts)])"
    using process_query_dispatch [OF tools_ok query first choice calls, of loads]
      dispatched final choice2 by simp
  have "filter is_create (map2 dispatch_event tcs argss) = []"
    by (auto simp: filter_empty_conv dispatch_event_def set_zip)
  then have "llm_round_trips ([List_tools, Create (first_request self query ts)]
            @ map2 dispatch_event tcs argss @ [Create (followup_request self msgs' ts)]) = 2"
    by (simp add: llm_round_trips_def)
  with res len msgs tr3 tr1 show ?thesis by auto
qed

text \<open>The theorem at the run of the scenario.\<close>

theorem tool_calls_two_round_trips_witness:
  "\<exists>argss texts. length argss = length [demo_tool_call] \<and> length texts = length [demo_tool_call] \<and>
      demo_messages =
        [user_message demo_query, Assistant \<lparr>content = None, tool_calls = Some [demo_tool_call]\<rparr>]
          @ map2 tool_message [demo_tool_call] texts \<and>
      process_query demo_loads demo_client demo_query [] =
        (Inr (Some ''1 plus 1 is 2''),
         [] @ [List_tools, Create (first_request demo_client demo_query demo_tools)]
            @ map2 dispatch_event [demo_tool_call] argss
            @ [Create (followup_request demo_client demo_messages demo_tools)]) \<and>
      llm_round_trips ([List_tools, Create (first_request demo_client demo_query demo_tools)]
            @ map2 dispatch_event [demo_tool_call] argss
            @ [Create (followup_request demo_client demo_messages demo_tools)]) = 2"
  using tool_calls_two_round_trips [OF demo_get_mcp_tools demo_query_nonempty demo_first
      demo_choice _ _ _ demo_final demo_choice2, of "[demo_tool_call]" demo_loads "()"]
    demo_handle
  by simp

text \<open>
  The claim as first stated promises the follow-up call for every query whose first
  response carries tool-call requests. With a session whose \<open>call_tool\<close> raises, the first
  response carries a request, yet the run ends with that failure after one LLM round
  trip and no follow-up call is made.
\<close>

theorem followup_counterexample:
  "create (openai_client failing_client) [List_tools]
      (first_request failing_client demo_query demo_tools) = Inr demo_first_response
   \<and> choices demo_first_response =
       [\<lparr>message = \<lparr>content = None, tool_calls = Some [demo_tool_call]\<rparr>\<rparr>]
   \<and> process_query demo_loads failing_client demo_query [] =
       (Inl TransportError,
        [List_tools, Create (first_request failing_client demo_query demo_tools), demo_dispatch])
   \<and> llm_round_trips
        [List_tools, Create (first_request failing_client demo_query demo_tools), demo_dispatch] = 1"
  using failing_run failing_first
  by (simp add: demo_first_response_def llm_round_trips_def demo_dispatch_def)

text \<open>
  A failing dispatch seen from the loop: with the tool calls \<open>pre @ tc # post\<close>, the
  calls of \<open>pre\<close> dispatched and the dispatch of \<open>tc\<close> failing (\<^verbatim>\<open>json.loads\<close> raises,
  \<open>call_tool\<close> raises, or the result has no content item), the query ends with that
  failure, the trace ends at the failing step and no message is appended for \<open>tc\<close>.
\<close>

lemma dispatch_failure_aborts:
  assumes tools_ok: "get_mcp_tools self tr = (Inr ts, tr1)"
    and query: "query \<noteq> ''''"
    and first: "create (openai_client self) tr1 (first_request self query ts) = Inr response"
    and choice: "choices response = ch # chs"
    and calls: "tool_calls (message ch) = Some (pre @ tc # post)"
    and before: "handle_tool_calls loads self pre [user_message query, Assistant (message ch)]
                   (tr1 @ [Create (first_request self query ts)]) = (Inr u, msgs1, tr2)"
    and sess: "session self = Some s"
    and failure:
      "loads (fn_arguments (tc_function tc)) = Inl e \<and> tr3 = tr2
       \<or> (\<exists>a. loads (fn_arguments (tc_function tc)) = Inr a \<and> tr3 = tr2 @ [dispatch_event tc a] \<and>
              (call_tool s tr2 (fn_name (tc_function tc)) a = Inl e
               \<or> (\<exists>result. call_tool s tr2 (fn_name (tc_function tc)) a = Inr result \<and>
                     result_content result = [] \<and> e = IndexError)))"
  shows "process_query loads self query tr = (Inl e, tr3)
       \<and> handle_tool_calls loads self (pre @ tc # post) [user_message query, Assistant (message ch)]
           (tr1 @ [Create (first_request self query ts)]) = (Inl e, msgs1, tr3)"
proof -
  have step: "handle_tool_calls loads self (tc # post) msgs1 tr2 = (Inl e, msgs1, tr3)"
    using sess failure by (auto simp: Let_def dispatch_event_def)
  have all: "handle_tool_calls loads self (pre @ tc # post)
      [user_message query, Assistant (message ch)]
      (tr1 @ [Create (first_request self query ts)]) = (Inl e, msgs1, tr3)"
    using before step by (simp add: handle_tool_calls_append)
  have "pre @ tc # post \<noteq> []" by simp
  from process_query_dispatch [OF tools_ok query first choice calls this, of loads] all
  show ?thesis by simp
qed

text \<open>
  Claim C5, as amended. No failure that reaches the orchestrator as an exception raised
  by a call to a collaborator (the session's \<open>list_tools\<close> or \<open>call_tool\<close>, the LLM
  provider's \<open>create\<close>) is recovered locally: in a run of \<open>process_query\<close>, if any such
  call raises \<open>e\<close>, the run ends with the failure \<open>e\<close> itself and no answer, and the
  failing call is the last event of the run: it is not retried, no further tool call is
  dispatched and no follow-up LLM call is made. The failures raised inside the loop
  itself (\<^verbatim>\<open>json.loads\<close>, an empty content list) end the run in the same way (lemma
  \<open>dispatch_failure_aborts\<close>). A failure that the session reports in a result whose
  \<open>isError\<close> is set is outside this statement: the orchestrator does not read the flag.
\<close>

theorem failure_aborts_query:
  assumes run: "process_query loads self query tr = (r, tr @ evs)"
    and i: "i < length evs"
    and failed: "raised self (tr @ take i evs) (evs ! i) = Some e"
  shows "r = Inl e \<and> Suc i = length evs"
proof (cases "get_mcp_tools self tr")
  case (Pair g tr1)
  show ?thesis
  proof (cases g)
    case (Inl e')
    with Pair run have r: "r = Inl e'" and tr1: "tr1 = tr @ evs"
      by (auto simp: process_query_def)
    show ?thesis
    proof (cases "session self")
      case None
      with Pair Inl tr1 i show ?thesis by (simp add: get_mcp_tools_def)
    next
      case (Some s)
      with Pair Inl tr1 have "evs = [List_tools]" "list_tools s tr = Inl e'"
        by (auto simp: get_mcp_tools_def split: sum.splits)
      with Some r i failed show ?thesis by simp
    qed
  next
    case (Inr ts)
    with Pair have tools_ok: "get_mcp_tools self tr = (Inr ts, tr1)" by simp
    then have tr1: "tr1 = tr @ [List_tools]" by (rule get_mcp_tools_trace)
    from tools_ok have listed: "raised self tr List_tools = None"
      by (auto simp: get_mcp_tools_def split: option.splits sum.splits)
    let ?first = "Create (first_request self query ts)"
    show ?thesis
    proof (cases "query = ''''")
      case True
      with tools_ok tr1 run have "evs = [List_tools]"
        by (auto simp: process_query_def send_first)
      with i failed listed show ?thesis by simp
    next
      case query: False
      show ?thesis
      proof (cases "create (openai_client self) tr1 (first_request self query ts)")
        case (Inl e')
        with tools_ok tr1 run query have "evs = [List_tools, ?first]" "r = Inl e'"
          by (auto simp: process_query_def send_first)
        with i failed listed Inl tr1 show ?thesis
          by (cases i) auto
      next
        case first: (Inr response)
        then have first_ok: "raised self (tr @ [List_tools]) ?first = None"
          using tr1 by simp
        have short: ?thesis if "evs = [List_tools, ?first]"
          using that i failed listed first_ok by (cases i) auto
        show ?thesis
        proof (cases "choices response")
          case Nil
          with tools_ok tr1 run query first have "evs = [List_tools, ?first]"
            by (auto simp: process_query_def send_first)
          then show ?thesis by (rule short)
        next
          case (Cons ch chs)
          show ?thesis
          proof (cases "truthy_list (tool_calls (message ch))")
            case False
            with tools_ok tr1 run query first Cons have "evs = [List_tools, ?first]"
              by (auto simp: process_query_def send_first)
            then show ?thesis by (rule short)
          next
            case True
            then obtain tcs where calls: "tool_calls (message ch) = Some tcs" "tcs \<noteq> []"
              by (cases "tool_calls (message ch)") auto
            note unfold = process_query_dispatch [OF tools_ok query first Cons calls, of loads]
            obtain r3 msgs' tr3 where h0: "handle_tool_calls loads self tcs
                [user_message query, Assistant (message ch)]
                (tr1 @ [?first]) = (r3, msgs', tr3)"
              by (metis prod_cases3)
            from handle_tool_calls_shape [OF h0] obtain cs where
              tr3: "tr3 = (tr @ [List_tools, ?first]) @ cs"
              using tr1 by auto
            with h0 tr1 have h: "handle_tool_calls loads self tcs
                [user_message query, Assistant (message ch)]
                (tr @ [List_tools, ?first]) = (r3, msgs', (tr @ [List_tools, ?first]) @ cs)"
              by simp
            have in_loop: "r3 = Inl e \<and> Suc j = length cs"
              if "j < length cs"
                and "raised self ((tr @ [List_tools, ?first]) @ take j cs) (cs ! j) = Some e"
              for j
              using h that by (rule handle_tool_calls_raised)
            let ?followup = "Create (followup_request self msgs' ts)"
            show ?thesis
            proof (cases r3)
              case (Inl e')
              with unfold h0 run tr3 have evs: "evs = [List_tools, ?first] @ cs" and r: "r = Inl e'"
                by auto
              show ?thesis
              proof (cases "i < 2")
                case True
                then have "i = 0 \<or> i = 1" by auto
                then have "raised self (tr @ take i evs) (evs ! i) = None"
                  using listed first_ok unfolding evs by auto
                with failed show ?thesis by simp
              next
                case False
                define j where "j = i - 2"
                with False have j: "i = Suc (Suc j)" by simp
                have "j < length cs"
                  using i unfolding j evs by simp
                moreover have
                  "raised self ((tr @ [List_tools, ?first]) @ take j cs) (cs ! j) = Some e"
                  using failed unfolding j evs by simp
                ultimately have "r3 = Inl e \<and> Suc j = length cs" by (rule in_loop)
                with Inl r evs j show ?thesis by simp
              qed
            next
              case (Inr u)
              with unfold h0 run tr3
              have evs: "evs = [List_tools, ?first] @ cs @ [?followup]"
                by (auto split: sum.splits list.splits)
              show ?thesis
              proof (cases "i < 2")
                case True
                then have "i = 0 \<or> i = 1" by auto
                then have "raised self (tr @ take i evs) (evs ! i) = None"
                  using listed first_ok unfolding evs by auto
                with failed show ?thesis by simp
              next
                case False
                define j where "j = i - 2"
                with False have j: "i = Suc (Suc j)" by simp
                show ?thesis
                proof (cases "j < length cs")
                  case True
                  have "raised self ((tr @ [List_tools, ?first]) @ take j cs) (cs ! j) = Some e"
                    using failed True unfolding j evs by (simp add: nth_append)
                  with True have "r3 = Inl e \<and> Suc j = length cs" by (rule in_loop)
                  with Inr show ?thesis by simp
                next
                  case False
                  have "j \<le> length cs" using i unfolding j evs by simp
                  with False have jl: "j = length cs" by simp
                  have "raised self tr3 ?followup = Some e"
                    using failed unfolding j evs jl tr3 by simp
                  then have "create (openai_client self) tr3 (followup_request self msgs' ts)
                      = Inl e"
                    by (simp split: sum.splits)
                  with unfold h0 Inr run have "r = Inl e" by simp
                  with evs j jl show ?thesis by simp
                qed
              qed
            qed
          qed
        qed
      qed
    qed
  qed
qed

text \<open>The theorem at the session whose \<open>call_tool\<close> raises \<open>TransportError\<close>.\<close>

theorem failure_aborts_query_witness:
  "process_query demo_loads failing_client demo_query [] =
     (Inl TransportError,
      [] @ [List_tools, Create (first_request failing_client demo_query demo_tools),
            demo_dispatch])
   \<and> raised failing_client
        ([] @ take 2 [List_tools, Create (first_request failing_client demo_query demo_tools),
                      demo_dispatch])
        ([List_tools, Create (first_request failing_client demo_query demo_tools),
          demo_dispatch] ! 2) = Some TransportError
   \<and> Suc 2 = length [List_tools, Create (first_request failing_client demo_query demo_tools),
                      demo_dispatch]"
proof -
  have failed: "raised failing_client
        ([] @ take 2 [List_tools, Create (first_request failing_client demo_query demo_tools),
                      demo_dispatch])
        ([List_tools, Create (first_request failing_client demo_query demo_tools),
          demo_dispatch] ! 2) = Some TransportError"
    by (simp add: demo_dispatch_def failing_client_def failing_session_def)
  from failure_aborts_query [of demo_loads failing_client demo_query "[]" "Inl TransportError"
      "[List_tools, Create (first_request failing_client demo_query demo_tools), demo_dispatch]"
      2 TransportError] failing_run failed
  show ?thesis by simp
qed

text \<open>
  The claim as first stated speaks of every failure, and names \<open>UnknownTool\<close> and
  \<open>InvalidArguments\<close>. The session reports such a failure in a result whose \<open>isError\<close> is
  set, which the orchestrator never reads. In this run the dispatch of the unknown tool
  "subtract" comes back flagged without raising, and yet a further tool call is
  dispatched, the follow-up LLM call is made and the query returns an answer.
\<close>

theorem flagged_failure_counterexample:
  "call_tool flagging_session
      [List_tools, Create (first_request flagging_client demo_query demo_tools)]
      ''subtract'' (JDict [(''a'', JInt 1), (''b'', JInt 1)]) =
     Inr \<lparr>result_content = [TextContent ''Unknown tool: subtract''], isError = True\<rparr>
   \<and> raised flagging_client
        [List_tools, Create (first_request flagging_client demo_query demo_tools)]
        unknown_dispatch = None
   \<and> process_query demo_loads flagging_client demo_query [] =
       (Inr (Some ''1 plus 1 is 2''),
        [List_tools, Create (first_request flagging_client demo_query demo_tools),
         unknown_dispatch, demo_dispatch,
         Create (followup_request flagging_client flagging_messages demo_tools)])
   \<and> tool_dispatches
        [List_tools, Create (first_request flagging_client demo_query demo_tools),
         unknown_dispatch, demo_dispatch,
         Create (followup_request flagging_client flagging_messages demo_tools)] = 2
   \<and> llm_round_trips
        [List_tools, Create (first_request flagging_client demo_query demo_tools),
         unknown_dispatch, demo_dispatch,
         Create (followup_request flagging_client flagging_messages demo_tools)] = 2"
  using flagging_run
  by (simp add: flagging_client_def flagging_session_def flagged_result_def
      tool_dispatches_def llm_round_trips_def unknown_dispatch_def demo_dispatch_def)

section \<open>The events inside the transport scope\<close>

lemma call_tool_not_sse: "is_call_tool ev \<Longrightarrow> \<not> is_sse_event ev"
  by (cases ev) auto

lemma process_query_no_sse:
  assumes run: "process_query loads self query tr = (r, tr')"
  shows "\<exists>evs. tr' = tr @ evs \<and> (\<forall>ev\<in>set evs. \<not> is_sse_event ev)"
  using process_query_shape [OF run]
proof (elim disjE exE conjE, goal_cases)
  case 1
  then show ?case by (intro exI [of _ "[]"]) simp
next
  case 2
  then show ?case by (intro exI [of _ "[List_tools]"]) simp
next
  case (3 ts calls)
  then show ?case
    by (intro exI [of _ "[List_tools, Create (first_request self query ts)] @ calls"])
      (auto dest: call_tool_not_sse)
next
  case (4 ts response ch chs tcs u msgs' tr3)
  from handle_tool_calls_shape [OF 4(7)] obtain calls where
    "tr3 = (tr @ [List_tools, Create (first_request self query ts)]) @ calls"
    "\<forall>ev\<in>set calls. is_call_tool ev" by blast
  with 4(8) show ?case
    by (intro exI [of _ "[List_tools, Create (first_request self query ts)] @ calls
                           @ [Create (followup_request self msgs' ts)]"])
      (auto dest: call_tool_not_sse)
qed

lemma connect_to_server_no_sse:
  assumes "connect_to_server self s tr = (r, self', tr')"
  shows "\<exists>evs. tr' = tr @ evs \<and> (\<forall>ev\<in>set evs. \<not> is_sse_event ev)"
proof -
  from assms have "tr' = tr @ [Initialize] \<or> tr' = tr @ [Initialize, List_tools]"
    by (auto simp: connect_to_server_def Let_def split: sum.splits)
  then show ?thesis
  proof
    assume "tr' = tr @ [Initialize]"
    then show ?thesis by (intro exI [of _ "[Initialize]"]) simp
  next
    assume "tr' = tr @ [Initialize, List_tools]"
    then show ?thesis by (intro exI [of _ "[Initialize, List_tools]"]) simp
  qed
qed

lemma async_with_released:
  "aenter cm tr = Inr x \<Longrightarrow>
     snd (async_with cm a b body tr) = snd (body x (tr @ [a])) @ [b]"
  by (simp add: async_with_def split: prod.split sum.split)

lemma async_with_no_sse:
  assumes body: "\<And>x t. \<exists>evs. snd (body x t) = t @ evs \<and> (\<forall>ev\<in>set evs. \<not> is_sse_event ev)"
    and a: "\<not> is_sse_event a" and b: "\<not> is_sse_event b"
  shows "\<exists>evs. snd (async_with cm a b body tr) = tr @ evs \<and> (\<forall>ev\<in>set evs. \<not> is_sse_event ev)"
proof (cases "aenter cm tr")
  case (Inl e)
  then have "snd (async_with cm a b body tr) = tr @ [a]"
    by (simp add: async_with_def)
  with a show ?thesis by (intro exI [of _ "[a]"]) simp
next
  case (Inr x)
  from body [of x "tr @ [a]"] obtain evs where
    "snd (body x (tr @ [a])) = (tr @ [a]) @ evs" "\<forall>ev\<in>set evs. \<not> is_sse_event ev" by blast
  with async_with_released [OF Inr, of a b body] a b show ?thesis
    by (intro exI [of _ "[a] @ evs @ [b]"]) simp
qed

lemma main_body_no_sse:
  "\<exists>evs. snd (case connect_to_server client0 s t of
               (Inl e, c, tr1) \<Rightarrow> (Inl e, tr1)
             | (Inr u, client1, tr1) \<Rightarrow>
                 (case process_query loads client1 q tr1 of
                    (Inl e, tr2) \<Rightarrow> (Inl e, tr2)
                  | (Inr response, tr2) \<Rightarrow> (Inr (), tr2))) = t @ evs
         \<and> (\<forall>ev\<in>set evs. \<not> is_sse_event ev)"
proof -
  obtain r c tr1 where c: "connect_to_server client0 s t = (r, c, tr1)"
    by (metis prod_cases3)
  from connect_to_server_no_sse [OF c] obtain evs1 where
    e1: "tr1 = t @ evs1" "\<forall>ev\<in>set evs1. \<not> is_sse_event ev" by blast
  show ?thesis
  proof (cases r)
    case (Inl e)
    with c e1 show ?thesis by (intro exI [of _ evs1]) simp
  next
    case (Inr u)
    obtain r2 tr2 where p: "process_query loads c q tr1 = (r2, tr2)"
      by (metis surj_pair)
    from process_query_no_sse [OF p] obtain evs2 where
      e2: "tr2 = tr1 @ evs2" "\<forall>ev\<in>set evs2. \<not> is_sse_event ev" by blast
    with c e1 p Inr show ?thesis
      by (intro exI [of _ "evs1 @ evs2"]) (auto split: sum.splits)
  qed
qed

lemma main_sse_body_no_sse:
  "\<exists>evs. snd (case initialize s tr0 of
                 Inl e \<Rightarrow> (Inl e, tr0 @ [Initialize])
               | Inr _ \<Rightarrow>
                   (let tr1 = tr0 @ [Initialize] in
                    case list_tools s tr1 of
                      Inl e \<Rightarrow> (Inl e, tr1 @ [List_tools])
                    | Inr tools_result \<Rightarrow>
                        (let tr2 = tr1 @ [List_tools];
                             arguments = JDict [(''a'', JInt 2), (''b'', JInt 3)];
                             tr3 = tr2 @ [Call_tool ''add'' arguments]
                         in case call_tool s tr2 ''add'' arguments of
                              Inl e \<Rightarrow> (Inl e, tr3)
                            | Inr result \<Rightarrow>
                                (case result_content result of
                                   [] \<Rightarrow> (Inl IndexError, tr3)
                                 | TextContent t # _ \<Rightarrow> (Inr (), tr3)
                                 | _ # _ \<Rightarrow> (Inl AttributeError, tr3))))) = tr0 @ evs
         \<and> (\<forall>ev\<in>set evs. \<not> is_sse_event ev)"
  by (auto simp: Let_def split: sum.split list.split content_item.split)

section \<open>Properties of the top-level routines\<close>

text \<open>
  Claim C8. In both top-level routines, once the transport connection is acquired
  (\<^verbatim>\<open>sse_client\<close> has been entered), the trace of the routine is: the acquisition, then
  events none of which enters or leaves the transport, then the release as the last
  event. This holds for every behaviour of the session, of the LLM and of the code in
  between, whether the routine returns or raises: every use lies between acquisition
  and release, and the release always happens.
\<close>

theorem transport_released:
  assumes acquired: "aenter (sse_client E ''http://localhost:8050/sse'') tr = Inr streams"
  shows "(\<exists>mid. snd (main_sse E tr) =
                  tr @ [Enter_sse_client ''http://localhost:8050/sse''] @ mid @ [Exit_sse_client] \<and>
                (\<forall>ev\<in>set mid. \<not> is_sse_event ev))
       \<and> (\<forall>oc. AsyncOpenAI E = Inr oc \<longrightarrow>
            (\<exists>mid. snd (main E tr) =
                  tr @ [Enter_sse_client ''http://localhost:8050/sse''] @ mid @ [Exit_sse_client] \<and>
                (\<forall>ev\<in>set mid. \<not> is_sse_event ev)))"
proof (intro conjI allI impI)
  obtain rs ws where streams: "streams = (rs, ws)" by (cases streams)
  let ?enter = "Enter_sse_client ''http://localhost:8050/sse''"
  have "\<exists>evs. snd (async_with (ClientSession E rs ws) Enter_ClientSession Exit_ClientSession
            (\<lambda>s tr0.
               case initialize s tr0 of
                 Inl e \<Rightarrow> (Inl e, tr0 @ [Initialize])
               | Inr _ \<Rightarrow>
                   (let tr1 = tr0 @ [Initialize] in
                    case list_tools s tr1 of
                      Inl e \<Rightarrow> (Inl e, tr1 @ [List_tools])
                    | Inr tools_result \<Rightarrow>
                        (let tr2 = tr1 @ [List_tools];
                             arguments = JDict [(''a'', JInt 2), (''b'', JInt 3)];
                             tr3 = tr2 @ [Call_tool ''add'' arguments]
                         in case call_tool s tr2 ''add'' arguments of
                              Inl e \<Rightarrow> (Inl e, tr3)
                            | Inr result \<Rightarrow>
                                (case result_content result of
                                   [] \<Rightarrow> (Inl IndexError, tr3)
                                 | TextContent t # _ \<Rightarrow> (Inr (), tr3)
                                 | _ # _ \<Rightarrow> (Inl AttributeError, tr3)))))
            (tr @ [?enter])) = (tr @ [?enter]) @ evs \<and> (\<forall>ev\<in>set evs. \<not> is_sse_event ev)"
    by (rule async_with_no_sse [OF main_sse_body_no_sse]) simp_all
  then obtain mid where "snd (main_sse E tr) = tr @ [?enter] @ mid @ [Exit_sse_client]"
    "\<forall>ev\<in>set mid. \<not> is_sse_event ev"
    using acquired streams
    by (auto simp: main_sse_def async_with_released [OF acquired])
  then show "\<exists>mid. snd (main_sse E tr) = tr @ [?enter] @ mid @ [Exit_sse_client] \<and>
                (\<forall>ev\<in>set mid. \<not> is_sse_event ev)" by blast
next
  fix oc
  assume oc: "AsyncOpenAI E = Inr oc"
  obtain rs ws where streams: "streams = (rs, ws)" by (cases streams)
  let ?enter = "Enter_sse_client ''http://localhost:8050/sse''"
  let ?client0 = "\<lparr>session = None, openai_client = oc, model = ''gpt-4o''\<rparr>"
  have "\<exists>evs. snd (async_with (ClientSession E rs ws) Enter_ClientSession Exit_ClientSession
            (\<lambda>s tr0.
                    case connect_to_server ?client0 s tr0 of
                      (Inl e, _, tr1) \<Rightarrow> (Inl e, tr1)
                    | (Inr _, client1, tr1) \<Rightarrow>
                        (case process_query (json_loads E) client1
                                ''What's 1 plus 1?'' tr1 of
                           (Inl e, tr2) \<Rightarrow> (Inl e, tr2)
                         | (Inr response, tr2) \<Rightarrow> (Inr (), tr2)))
            (tr @ [?enter])) = (tr @ [?enter]) @ evs \<and> (\<forall>ev\<in>set evs. \<not> is_sse_event ev)"
    by (rule async_with_no_sse [OF main_body_no_sse]) simp_all
  then obtain mid where "snd (main E tr) = tr @ [?enter] @ mid @ [Exit_sse_client]"
    "\<forall>ev\<in>set mid. \<not> is_sse_event ev"
    using acquired streams oc
    by (auto simp: main_def MCPOpenAIClient_def async_with_released [OF acquired])
  then show "\<exists>mid. snd (main E tr) = tr @ [?enter] @ mid @ [Exit_sse_client] \<and>
                (\<forall>ev\<in>set mid. \<not> is_sse_event ev)" by blast
qed

text \<open>The theorem at the collaborators of the scenario.\<close>

theorem transport_released_witness:
  "snd (main_sse demo_env []) =
     [Enter_sse_client ''http://localhost:8050/sse'', Enter_ClientSession, Initialize,
      List_tools, Call_tool ''add'' (JDict [(''a'', JInt 2), (''b'', JInt 3)]),
      Exit_ClientSession, Exit_sse_client]
   \<and> (\<exists>mid. snd (main demo_env []) =
         [] @ [Enter_sse_client ''http://localhost:8050/sse''] @ mid @ [Exit_sse_client] \<and>
         (\<forall>ev\<in>set mid. \<not> is_sse_event ev))"
proof -
  have a: "aenter (sse_client demo_env ''http://localhost:8050/sse'') [] =
      Inr (Sse_stream 0, Sse_stream 1)"
    by (simp add: demo_env_def)
  have oc: "AsyncOpenAI demo_env = Inr demo_openai" by (simp add: demo_env_def)
  have "snd (main_sse demo_env []) =
     [Enter_sse_client ''http://localhost:8050/sse'', Enter_ClientSession, Initialize,
      List_tools, Call_tool ''add'' (JDict [(''a'', JInt 2), (''b'', JInt 3)]),
      Exit_ClientSession, Exit_sse_client]"
    by (simp add: main_sse_def async_with_def demo_env_def demo_session_def demo_call_tool_def)
  with transport_released [OF a] oc show ?thesis by simp
qed

text \<open>When the acquisition itself fails, nothing else happens.\<close>

lemma transport_not_acquired:
  assumes "aenter (sse_client E ''http://localhost:8050/sse'') tr = Inl e"
  shows "main_sse E tr = (Inl e, tr @ [Enter_sse_client ''http://localhost:8050/sse''])"
    and "AsyncOpenAI E = Inr oc \<Longrightarrow>
           main E tr = (Inl e, tr @ [Enter_sse_client ''http://localhost:8050/sse''])"
  using assms by (simp_all add: main_sse_def main_def MCPOpenAIClient_def async_with_def)

end
